theory Spec2Isabelle
  imports Main "HOL-Library.Sublist"
begin

section \<open>Python values, exceptions and strings\<close>

text \<open>
  The plugin is glue code around four libraries: \<open>requests\<close> (HTTP), \<open>bs4\<close> (HTML),
  \<open>json\<close> and \<open>datetime\<close>.  Exceptions are values of type \<open>exn\<close>; a computation that may
  raise returns \<open>exn + 'a\<close> with \<open>Inl\<close> for the raised exception.  \<open>ValueError\<close> carries
  the message (the library's own messages are abbreviated), \<open>KeyError\<close> the missing key,
  \<open>HTTPError\<close> the status code, \<open>ConfigError\<close> (the specification's name for a failed
  load of the settings) the field; \<open>OtherError\<close> stands for any other exception class a
  library may raise (connection failures, parser rejections).
\<close>

datatype exn =
    ValueError string
  | KeyError string
  | TypeError
  | AttributeError
  | HTTPError nat
  | ConfigError string
  | OtherError string

text \<open>
  What \<open>json.loads\<close> and \<open>response.json()\<close> produce: the Python values \<open>None\<close>, \<open>bool\<close>,
  \<open>int\<close>, \<open>float\<close> (kept as mantissa and exponent, never inspected), \<open>str\<close>, \<open>list\<close> and
  \<open>dict\<close>.  A \<open>dict\<close> is an association list in insertion order, read with \<open>map_of\<close>.
  A Python \<open>str\<close> is a \<open>string\<close>: a list of characters with code points below 256.
\<close>

datatype json =
    JNull
  | JBool bool
  | JInt int
  | JFloat int int
  | JStr string
  | JArr "json list"
  | JObj "(string \<times> json) list"

text \<open>\<open>obj[key]\<close> for a string key: a \<open>dict\<close> without the key raises \<open>KeyError\<close>, every
  other value raises \<open>TypeError\<close>.\<close>

fun getitem :: "json \<Rightarrow> string \<Rightarrow> exn + json" where
  "getitem (JObj kvs) k = (case map_of kvs k of None \<Rightarrow> Inl (KeyError k) | Some v \<Rightarrow> Inr v)"
| "getitem _ k = Inl TypeError"

text \<open>\<open>for d in obj\<close>: a list yields its elements, a dict its keys, a string its
  characters; anything else is not iterable.\<close>

fun py_iter :: "json \<Rightarrow> exn + json list" where
  "py_iter (JArr xs) = Inr xs"
| "py_iter (JObj kvs) = Inr (map (\<lambda>kv. JStr (fst kv)) kvs)"
| "py_iter (JStr s) = Inr (map (\<lambda>c. JStr [c]) s)"
| "py_iter _ = Inl TypeError"

text \<open>A list comprehension \<open>[f(x) for x in xs]\<close>: left to right, the first exception ends it.\<close>

fun map_exn :: "('a \<Rightarrow> exn + 'b) \<Rightarrow> 'a list \<Rightarrow> exn + 'b list" where
  "map_exn f [] = Inr []"
| "map_exn f (x # xs) =
     (case f x of
        Inl e \<Rightarrow> Inl e
      | Inr y \<Rightarrow> (case map_exn f xs of Inl e \<Rightarrow> Inl e | Inr ys \<Rightarrow> Inr (y # ys)))"

text \<open>\<open>ord(c)\<close>, \<open>needle in haystack\<close>, \<open>str.isspace\<close> on one character (the whitespace
  code points below 256), \<open>s.strip()\<close>, \<open>s.rstrip(';')\<close> and \<open>s.partition(sep)[2]\<close>.\<close>

definition ord :: "char \<Rightarrow> nat" where
  "ord c = of_char c"

fun str_contains :: "string \<Rightarrow> string \<Rightarrow> bool" where
  "str_contains needle [] = (needle = [])"
| "str_contains needle (c # cs) = (prefix needle (c # cs) \<or> str_contains needle cs)"

definition isspace :: "char \<Rightarrow> bool" where
  "isspace c = ((9 \<le> ord c \<and> ord c \<le> 13) \<or> (28 \<le> ord c \<and> ord c \<le> 32)
                 \<or> ord c = 133 \<or> ord c = 160)"

definition strip :: "string \<Rightarrow> string" where
  "strip s = rev (dropWhile isspace (rev (dropWhile isspace s)))"

definition rstrip_chars :: "string \<Rightarrow> string \<Rightarrow> string" where
  "rstrip_chars chars s = rev (dropWhile (\<lambda>c. c \<in> set chars) (rev s))"

fun partition_tail :: "char \<Rightarrow> string \<Rightarrow> string" where
  "partition_tail sep [] = []"
| "partition_tail sep (c # cs) = (if c = sep then cs else partition_tail sep cs)"

section \<open>Calendar dates and \<open>strptime(d, '%Y-%m-%d')\<close>\<close>

datatype date = Date (year: nat) (month: nat) (day: nat)

definition is_leap :: "nat \<Rightarrow> bool" where
  "is_leap y = (y mod 4 = 0 \<and> (y mod 100 \<noteq> 0 \<or> y mod 400 = 0))"

definition days_in_month :: "nat \<Rightarrow> nat \<Rightarrow> nat" where
  "days_in_month y m =
     (if m = 2 then (if is_leap y then 29 else 28)
      else if m = 4 \<or> m = 6 \<or> m = 9 \<or> m = 11 then 30 else 31)"

definition is_digit :: "char \<Rightarrow> bool" where
  "is_digit c = (48 \<le> ord c \<and> ord c \<le> 57)"

definition digit_val :: "char \<Rightarrow> nat" where
  "digit_val c = ord c - 48"

definition in_range :: "nat \<Rightarrow> nat \<Rightarrow> char \<Rightarrow> bool" where
  "in_range lo hi c = (48 + lo \<le> ord c \<and> ord c \<le> 48 + hi)"

text \<open>
  The standard library turns the format into a regular expression and matches it at
  the start of the string, alternatives tried in this order:
  \<^verbatim>\<open>%Y  \d\d\d\d\<close>,
  \<^verbatim>\<open>%m  1[0-2] | 0[1-9] | [1-9]\<close>,
  \<^verbatim>\<open>%d  3[0-1] | [1-2]\d | 0[1-9] | [1-9] | " "[1-9]\<close>.
  Each function returns the ways its directive matches a prefix, in that order, with the
  value read and the rest of the string.
\<close>

definition month_alts :: "string \<Rightarrow> (nat \<times> string) list" where
  "month_alts s =
     (case s of a # b # r \<Rightarrow>
        (if ord a = 49 \<and> in_range 0 2 b then [(10 + digit_val b, r)] else [])
      | _ \<Rightarrow> [])
   @ (case s of a # b # r \<Rightarrow>
        (if ord a = 48 \<and> in_range 1 9 b then [(digit_val b, r)] else [])
      | _ \<Rightarrow> [])
   @ (case s of a # r \<Rightarrow>
        (if in_range 1 9 a then [(digit_val a, r)] else [])
      | _ \<Rightarrow> [])"

definition day_alts :: "string \<Rightarrow> (nat \<times> string) list" where
  "day_alts s =
     (case s of a # b # r \<Rightarrow>
        (if ord a = 51 \<and> in_range 0 1 b then [(30 + digit_val b, r)] else [])
      | _ \<Rightarrow> [])
   @ (case s of a # b # r \<Rightarrow>
        (if in_range 1 2 a \<and> is_digit b then [(10 * digit_val a + digit_val b, r)] else [])
      | _ \<Rightarrow> [])
   @ (case s of a # b # r \<Rightarrow>
        (if ord a = 48 \<and> in_range 1 9 b then [(digit_val b, r)] else [])
      | _ \<Rightarrow> [])
   @ (case s of a # r \<Rightarrow>
        (if in_range 1 9 a then [(digit_val a, r)] else [])
      | _ \<Rightarrow> [])
   @ (case s of a # b # r \<Rightarrow>
        (if ord a = 32 \<and> in_range 1 9 b then [(digit_val b, r)] else [])
      | _ \<Rightarrow> [])"

text \<open>After a literal \<open>-\<close>: the rest of the string, or no match.\<close>

definition after_dash :: "string \<Rightarrow> string option" where
  "after_dash s = (case s of c # r \<Rightarrow> (if ord c = 45 then Some r else None) | [] \<Rightarrow> None)"

text \<open>The whole pattern: the first successful way through the alternatives (the regular
  expression backtracks into \<open>%m\<close> when what follows it fails), giving year, month, day
  and the unconsumed rest.\<close>

definition regex_match_ymd :: "string \<Rightarrow> (nat \<times> nat \<times> nat \<times> string) option" where
  "regex_match_ymd s =
     (case s of
        y1 # y2 # y3 # y4 # r0 \<Rightarrow>
          (if is_digit y1 \<and> is_digit y2 \<and> is_digit y3 \<and> is_digit y4 then
             (case after_dash r0 of
                None \<Rightarrow> None
              | Some r1 \<Rightarrow>
                 (case concat (map (\<lambda>(m, r2).
                          (case after_dash r2 of
                             None \<Rightarrow> []
                           | Some r3 \<Rightarrow> map (\<lambda>(d, r4). (m, d, r4)) (day_alts r3)))
                        (month_alts r1)) of
                    [] \<Rightarrow> None
                  | (m, d, r4) # _ \<Rightarrow>
                      Some (1000 * digit_val y1 + 100 * digit_val y2 + 10 * digit_val y3
                              + digit_val y4, m, d, r4)))
           else None)
      | _ \<Rightarrow> None)"

text \<open>\<open>datetime.datetime.strptime(s, '%Y-%m-%d').date()\<close> on a string: \<open>ValueError\<close> when the
  pattern does not match, when input is left over, and when the numbers are not a
  calendar date (years start at 1).\<close>

definition strptime_ymd :: "string \<Rightarrow> exn + date" where
  "strptime_ymd s =
     (case regex_match_ymd s of
        None \<Rightarrow> Inl (ValueError ''time data does not match format'')
      | Some (y, m, d, rest) \<Rightarrow>
          (if rest \<noteq> [] then Inl (ValueError ''unconverted data remains'')
           else if y < 1 then Inl (ValueError ''year is out of range'')
           else if days_in_month y m < d then Inl (ValueError ''day is out of range for month'')
           else Inr (Date y m d)))"

text \<open>The first argument of \<open>strptime\<close> must be a \<open>str\<close>.\<close>

fun strptime :: "json \<Rightarrow> exn + date" where
  "strptime (JStr s) = strptime_ymd s"
| "strptime _ = Inl TypeError"

section \<open>The document tree of \<open>bs4\<close>\<close>

text \<open>
  A parsed document is a tree of tags and strings.  A tag has a name, its attributes
  (a \<open>dict\<close> from attribute names to the attribute text) and its children.  A
  \<open>NavigableString\<close> is text that \<open>.text\<close> collects; \<open>SpecialString\<close> is a string of one
  of the subclasses that \<open>.text\<close> leaves out (comments, the body of a script).  The
  \<open>BeautifulSoup\<close> object is itself the root tag of the tree.
\<close>

datatype node =
    Tag string "(string \<times> string) list" "node list"
  | NavigableString string
  | SpecialString string

text \<open>\<open>tag.descendants\<close>: every node below the tag, in document order.\<close>

fun descendants :: "node \<Rightarrow> node list" where
  "descendants (Tag n as cs) = concat (map (\<lambda>c. c # descendants c) cs)"
| "descendants (NavigableString s) = []"
| "descendants (SpecialString s) = []"

text \<open>\<open>tag.find(...)\<close> is the first descendant tag the search accepts, \<open>tag.find_all(...)\<close>
  all of them; strings are never candidates.\<close>

fun is_tag :: "node \<Rightarrow> bool" where
  "is_tag (Tag n as cs) = True"
| "is_tag _ = False"

definition find_all :: "(node \<Rightarrow> bool) \<Rightarrow> node \<Rightarrow> node list" where
  "find_all P t = filter (\<lambda>d. is_tag d \<and> P d) (descendants t)"

definition find_first :: "(node \<Rightarrow> bool) \<Rightarrow> node \<Rightarrow> node option" where
  "find_first P t = (case find_all P t of [] \<Rightarrow> None | d # _ \<Rightarrow> Some d)"

fun tag_name :: "node \<Rightarrow> string" where
  "tag_name (Tag n as cs) = n"
| "tag_name _ = []"

fun attrs :: "node \<Rightarrow> (string \<rightharpoonup> string)" where
  "attrs (Tag n as cs) = map_of as"
| "attrs _ = Map.empty"

text \<open>The value of \<open>class\<close> is split at whitespace into a list of classes when the tree is
  built; a search for one class accepts a tag that has it among its classes.\<close>

fun split_ws :: "string \<Rightarrow> string \<Rightarrow> string list" where
  "split_ws cur [] = (if cur = [] then [] else [rev cur])"
| "split_ws cur (c # cs) =
     (if isspace c then (if cur = [] then split_ws [] cs else rev cur # split_ws [] cs)
      else split_ws (c # cur) cs)"

definition has_class :: "string \<Rightarrow> node \<Rightarrow> bool" where
  "has_class cls t = (case attrs t ''class'' of None \<Rightarrow> False | Some v \<Rightarrow> cls \<in> set (split_ws [] v))"

definition has_id :: "string \<Rightarrow> node \<Rightarrow> bool" where
  "has_id i t = (attrs t ''id'' = Some i)"

text \<open>\<open>tag.text\<close> joins the text strings below the tag; \<open>tag.string\<close> is the single string
  child (looked for through a chain of single tag children), otherwise \<open>None\<close>.\<close>

fun own_text :: "node \<Rightarrow> string" where
  "own_text (NavigableString s) = s"
| "own_text _ = []"

definition get_text :: "node \<Rightarrow> string" where
  "get_text t = concat (map own_text (descendants t))"

fun tag_string :: "node \<Rightarrow> string option" where
  "tag_string (Tag n as [NavigableString s]) = Some s"
| "tag_string (Tag n as [SpecialString s]) = Some s"
| "tag_string (Tag n as [Tag m bs ds]) = tag_string (Tag m bs ds)"
| "tag_string _ = None"

section \<open>The libraries the plugin calls\<close>

text \<open>
  A \<open>requests\<close> response: its status code, \<open>response.text\<close>, and what \<open>response.json()\<close>
  returns or raises.
\<close>

record response =
  status_code :: nat
  response_text :: string
  response_json :: "exn + json"

text \<open>\<open>response.raise_for_status()\<close> raises for the 4xx and 5xx codes.\<close>

definition raise_for_status :: "response \<Rightarrow> exn + unit" where
  "raise_for_status r =
     (if 400 \<le> status_code r \<and> status_code r < 600 then Inl (HTTPError (status_code r))
      else Inr ())"

text \<open>
  The network and the two parsers are parameters of the model: \<open>session.get(url)\<close>,
  \<open>requests.post(url, data=...)\<close>, \<open>bs4.BeautifulSoup(markup, features='html.parser')\<close> and
  \<open>json.loads(s)\<close>.  Each returns its result or the exception it raises.
\<close>

record env =
  session_get :: "string \<Rightarrow> exn + response"
  requests_post :: "json \<Rightarrow> (string \<times> json) list \<Rightarrow> exn + response"
  BeautifulSoup :: "json \<Rightarrow> exn + node"
  json_loads :: "string \<Rightarrow> exn + json"

text \<open>A record written by \<open>logger.error(msg, *args)\<close>.\<close>

datatype log_record = LogError string "json list"

section \<open>The data model of \<open>impfbot.api\<close>\<close>

text \<open>
  Modelled from the spec: the module \<open>impfbot.api\<close> is not among the sources.  Of the
  enumeration \<open>VaccineType\<close> the three members the plugin uses, with the member's \<open>name\<close>;
  a \<open>VaccineRound\<close> is the pair of vaccine type and optional dose number;
  \<open>AvailabilityInfo\<close> holds the available dates and an optional "not available until"
  date.
\<close>

datatype VaccineType = AstraZeneca | JohnsonAndJohnson | Biontech

fun VaccineType_name :: "VaccineType \<Rightarrow> string" where
  "VaccineType_name AstraZeneca = ''AstraZeneca''"
| "VaccineType_name JohnsonAndJohnson = ''JohnsonAndJohnson''"
| "VaccineType_name Biontech = ''Biontech''"

type_synonym VaccineRound = "VaccineType \<times> int option"

record AvailabilityInfo =
  dates :: "date list"
  not_available_until :: "date option"

section \<open>\<open>DachauMedVaccinationCenter\<close>\<close>

text \<open>The dataclass.  \<open>ajax_url\<close> and \<open>ajax_none\<close> hold whatever the page's configuration
  object has under \<open>ajax_url\<close> and \<open>ajax_nonce\<close>.\<close>

record DachauMedVaccinationCenter =
  vaccine_type :: VaccineType
  round_num :: "int option"
  name :: string
  salon_id :: string
  url :: string
  ajax_url :: json
  ajax_none :: json

text \<open>\<open>__name__\<close> of the module \<open>impfbot/contrib/de/bavaria/dachau.py\<close>.\<close>

definition plugin_module :: string where
  "plugin_module = ''impfbot.contrib.de.bavaria.dachau''"

definition uid :: "DachauMedVaccinationCenter \<Rightarrow> string" where
  "uid c = plugin_module @ '':'' @ VaccineType_name (vaccine_type c) @ '':'' @ salon_id c"

definition location :: "DachauMedVaccinationCenter \<Rightarrow> string" where
  "location c = ''Germany, Bavaria, Landkreis Dachau''"

text \<open>The form fields posted to the AJAX endpoint.\<close>

definition post_data :: "DachauMedVaccinationCenter \<Rightarrow> (string \<times> json) list" where
  "post_data c =
     [(''sln[shop]'', JStr (salon_id c)),
      (''sln_step_page'', JStr ''shop''),
      (''submit_shop'', JStr ''next''),
      (''action'', JStr ''salon''),
      (''method'', JStr ''salonStep''),
      (''security'', ajax_none c)]"

definition has_data_intervals :: "node \<Rightarrow> bool" where
  "has_data_intervals t = (attrs t ''data-intervals'' \<noteq> None)"

definition missing_node_msg :: string where
  "missing_node_msg =
     ''Unable to find node with data-intervals attribute in page.''
       @ [char_of (10::nat), char_of (10::nat)] @ ''%s'' @ [char_of (10::nat)]"

text \<open>\<open>check_availability\<close> returns the mapping or the exception, and the log records it
  wrote.\<close>

definition check_availability ::
  "env \<Rightarrow> DachauMedVaccinationCenter
     \<Rightarrow> (exn + (VaccineRound \<rightharpoonup> AvailabilityInfo)) \<times> log_record list" where
  "check_availability env c =
     (case requests_post env (ajax_url c) (post_data c) of
        Inl e \<Rightarrow> (Inl e, [])
      | Inr response \<Rightarrow>
     if str_contains ''Keine freien Termine'' (response_text response) then (Inr Map.empty, [])
     else
     (case response_json response of
        Inl e \<Rightarrow> (Inl e, [])
      | Inr body \<Rightarrow>
     (case getitem body ''content'' of
        Inl e \<Rightarrow> (Inl e, [])
      | Inr content \<Rightarrow>
     (case BeautifulSoup env content of
        Inl e \<Rightarrow> (Inl e, [])
      | Inr soup \<Rightarrow>
     (case find_first has_data_intervals soup of
        None \<Rightarrow> (Inr Map.empty, [LogError missing_node_msg [content]])
      | Some data_node \<Rightarrow>
     (case attrs data_node ''data-intervals'' of
        None \<Rightarrow> (Inl (KeyError ''data-intervals''), [])
      | Some v \<Rightarrow>
     (case json_loads env v of
        Inl e \<Rightarrow> (Inl e, [])
      | Inr intervals \<Rightarrow>
     (case getitem intervals ''dates'' of
        Inl e \<Rightarrow> (Inl e, [])
      | Inr ds \<Rightarrow>
     (case py_iter ds of
        Inl e \<Rightarrow> (Inl e, [])
      | Inr items \<Rightarrow>
     (case map_exn strptime items of
        Inl e \<Rightarrow> (Inl e, [])
      | Inr dts \<Rightarrow>
          (Inr [(vaccine_type c, round_num c)
                  \<mapsto> \<lparr>dates = dts, not_available_until = None\<rparr>], [])))))))))))"

section \<open>Discovery of the vaccination centers\<close>

definition ASTRA_2_URL :: string where
  "ASTRA_2_URL = ''https://termin.dachau-med.de/impfungen01/''"

definition JNJ_URL :: string where
  "JNJ_URL = ''https://termin.dachau-med.de/impfungen02/''"

definition BIONTECH_1_URL :: string where
  "BIONTECH_1_URL = ''https://termin.dachau-med.de/impfungen03/''"

definition BIONTECH_2_URL :: string where
  "BIONTECH_2_URL = ''https://termin.dachau-med.de/impfung/''"

text \<open>The four searches: \<open>find('form', id='salon-step-attendant')\<close>,
  \<open>find('div', class_='sln-shop-list')\<close>, \<open>find_all('option')\<close> and
  \<open>find('script', id='salon-js-extra')\<close>.\<close>

definition is_step_form :: "node \<Rightarrow> bool" where
  "is_step_form t = (tag_name t = ''form'' \<and> has_id ''salon-step-attendant'' t)"

definition is_shop_list :: "node \<Rightarrow> bool" where
  "is_shop_list t = (tag_name t = ''div'' \<and> has_class ''sln-shop-list'' t)"

definition is_option :: "node \<Rightarrow> bool" where
  "is_option t = (tag_name t = ''option'')"

definition is_salon_extra :: "node \<Rightarrow> bool" where
  "is_salon_extra t = (tag_name t = ''script'' \<and> has_id ''salon-js-extra'' t)"

text \<open>A shop is the dictionary \<open>{'id': opt.attrs['value'], 'name': opt.text.strip()}\<close>,
  kept as the pair of the two values.\<close>

definition shop_of :: "node \<Rightarrow> exn + string \<times> string" where
  "shop_of opt =
     (case attrs opt ''value'' of
        None \<Rightarrow> Inl (KeyError ''value'')
      | Some v \<Rightarrow> Inr (v, strip (get_text opt)))"

definition get_vaccination_centers_for ::
  "env \<Rightarrow> string \<Rightarrow> VaccineType \<Rightarrow> int option \<Rightarrow> exn + DachauMedVaccinationCenter list" where
  "get_vaccination_centers_for env page_url vt rn =
     (case session_get env page_url of
        Inl e \<Rightarrow> Inl e
      | Inr response \<Rightarrow>
     (case raise_for_status response of
        Inl e \<Rightarrow> Inl e
      | Inr _ \<Rightarrow>
     (case BeautifulSoup env (JStr (response_text response)) of
        Inl e \<Rightarrow> Inl e
      | Inr soup \<Rightarrow>
     (case find_first is_step_form soup of
        None \<Rightarrow> Inl (ValueError ''form#salon-step-attendant not found'')
      | Some form \<Rightarrow>
     (case find_first is_shop_list soup of
        None \<Rightarrow> Inl (ValueError ''div.sln-shop-list not found'')
      | Some shop_list \<Rightarrow>
     (case map_exn shop_of (find_all is_option shop_list) of
        Inl e \<Rightarrow> Inl e
      | Inr shops \<Rightarrow>
     (case find_first is_salon_extra soup of
        None \<Rightarrow> Inl (ValueError ''script#salon-js-extra not found'')
      | Some salon_extra \<Rightarrow>
     (case tag_string salon_extra of
        None \<Rightarrow> Inl AttributeError
      | Some s \<Rightarrow>
     (case json_loads env (rstrip_chars '';'' (strip (partition_tail (CHR ''='') s))) of
        Inl e \<Rightarrow> Inl e
      | Inr extra_data \<Rightarrow>
          map_exn (\<lambda>shop.
             (case getitem extra_data ''ajax_url'' of
                Inl e \<Rightarrow> Inl e
              | Inr au \<Rightarrow>
             (case getitem extra_data ''ajax_nonce'' of
                Inl e \<Rightarrow> Inl e
              | Inr an \<Rightarrow>
                  Inr \<lparr>vaccine_type = vt, round_num = rn, name = snd shop,
                       salon_id = fst shop, url = page_url, ajax_url = au,
                       ajax_none = an\<rparr>)))
            shops)))))))))"

text \<open>\<open>DachauMedPlugin.get_vaccination_centers\<close>: the four calls in the order written,
  their lists joined with \<open>+\<close>; the first call that raises ends the whole.\<close>

definition get_vaccination_centers :: "env \<Rightarrow> exn + DachauMedVaccinationCenter list" where
  "get_vaccination_centers env =
     (case get_vaccination_centers_for env JNJ_URL JohnsonAndJohnson None of
        Inl e \<Rightarrow> Inl e
      | Inr jnj \<Rightarrow>
     (case get_vaccination_centers_for env ASTRA_2_URL AstraZeneca (Some 2) of
        Inl e \<Rightarrow> Inl e
      | Inr astra2 \<Rightarrow>
     (case get_vaccination_centers_for env BIONTECH_1_URL Biontech (Some 1) of
        Inl e \<Rightarrow> Inl e
      | Inr biontech1 \<Rightarrow>
     (case get_vaccination_centers_for env BIONTECH_2_URL Biontech (Some 2) of
        Inl e \<Rightarrow> Inl e
      | Inr biontech2 \<Rightarrow> Inr (((jnj @ astra2) @ biontech1) @ biontech2)))))"

section \<open>The settings\<close>

text \<open>The dataclass \<open>Config\<close>: \<open>token\<close> has no default, the other four fields have.
  \<open>Config_init\<close> is its constructor, an absent argument written \<open>None\<close>.\<close>

record Config =
  token :: string
  admin_chat_id :: int
  database_spec :: string
  check_period :: int
  log_format :: string

definition Config_init ::
  "string \<Rightarrow> int option \<Rightarrow> string option \<Rightarrow> int option \<Rightarrow> string option \<Rightarrow> Config" where
  "Config_init tok a d p l =
     \<lparr>token = tok,
      admin_chat_id = (case a of None \<Rightarrow> 56970700 | Some v \<Rightarrow> v),
      database_spec = (case d of None \<Rightarrow> ''sqlite+pysqlite:///data/impfbot.db'' | Some v \<Rightarrow> v),
      check_period = (case p of None \<Rightarrow> 20 * 60 | Some v \<Rightarrow> v),
      log_format =
        (case l of
           None \<Rightarrow> ''[%(asctime)s - %(levelname)s - %(name)s]: %(message)s''
         | Some v \<Rightarrow> v)\<rparr>"

text \<open>
  What \<open>Config.load\<close> needs from outside: \<open>open(filename)\<close> with the text of the file,
  the parse of that text into a YAML document, and the conversion of a YAML value into
  a field of type \<open>str\<close> or \<open>int\<close>.
\<close>

record loader =
  open_file :: "string \<Rightarrow> exn + string"
  yaml_parse :: "string \<Rightarrow> exn + json"
  as_str :: "json \<Rightarrow> exn + string"
  as_int :: "json \<Rightarrow> exn + int"

definition optional_field :: "(json \<Rightarrow> exn + 'a) \<Rightarrow> json option \<Rightarrow> exn + 'a option" where
  "optional_field conv v =
     (case v of
        None \<Rightarrow> Inr None
      | Some j \<Rightarrow> (case conv j of Inl e \<Rightarrow> Inl e | Inr x \<Rightarrow> Inr (Some x)))"

text \<open>
  Modelled from the spec: \<open>databind.yaml.from_stream\<close> is a library that is not among
  the sources.  The specification describes it as deserialisation into the shape of
  \<open>Config\<close>, field by field: the required field \<open>token\<close> must be present or loading fails
  with a \<open>ConfigError\<close>, every other field falls back to its default when absent, and
  nothing is validated beyond the conversion of each value to the type of its field.
\<close>

definition from_stream :: "loader \<Rightarrow> string \<Rightarrow> exn + Config" where
  "from_stream ld txt =
     (case yaml_parse ld txt of
        Inl e \<Rightarrow> Inl e
      | Inr doc \<Rightarrow>
     (case doc of
        JObj kvs \<Rightarrow>
          (case map_of kvs ''token'' of
             None \<Rightarrow> Inl (ConfigError ''token'')
           | Some tv \<Rightarrow>
          (case as_str ld tv of
             Inl e \<Rightarrow> Inl e
           | Inr tok \<Rightarrow>
          (case optional_field (as_int ld) (map_of kvs ''admin_chat_id'') of
             Inl e \<Rightarrow> Inl e
           | Inr a \<Rightarrow>
          (case optional_field (as_str ld) (map_of kvs ''database_spec'') of
             Inl e \<Rightarrow> Inl e
           | Inr d \<Rightarrow>
          (case optional_field (as_int ld) (map_of kvs ''check_period'') of
             Inl e \<Rightarrow> Inl e
           | Inr p \<Rightarrow>
          (case optional_field (as_str ld) (map_of kvs ''log_format'') of
             Inl e \<Rightarrow> Inl e
           | Inr l \<Rightarrow> Inr (Config_init tok a d p l)))))))
      | _ \<Rightarrow> Inl (ConfigError ''token'')))"

text \<open>\<open>Config.load\<close>: open the file and hand the stream to the deserialiser.\<close>

definition Config_load :: "loader \<Rightarrow> string \<Rightarrow> exn + Config" where
  "Config_load ld filename =
     (case open_file ld filename of
        Inl e \<Rightarrow> Inl e
      | Inr txt \<Rightarrow> from_stream ld txt)"

section \<open>Well-formed dates, in the words of the specification\<close>

text \<open>
  An ISO \<open>YYYY-MM-DD\<close> string: four digits, a dash, two digits, a dash, two digits, that
  name a day of the calendar.  \<open>iso_date\<close> is the calendar date such a string denotes.
\<close>

definition iso_date :: "string \<Rightarrow> date option" where
  "iso_date s =
     (case s of
        [y1, y2, y3, y4, s1, m1, m2, s2, d1, d2] \<Rightarrow>
          (let y = 1000 * digit_val y1 + 100 * digit_val y2 + 10 * digit_val y3 + digit_val y4;
               m = 10 * digit_val m1 + digit_val m2;
               d = 10 * digit_val d1 + digit_val d2
           in if is_digit y1 \<and> is_digit y2 \<and> is_digit y3 \<and> is_digit y4
                 \<and> ord s1 = 45 \<and> is_digit m1 \<and> is_digit m2
                 \<and> ord s2 = 45 \<and> is_digit d1 \<and> is_digit d2
                 \<and> 1 \<le> y \<and> 1 \<le> m \<and> m \<le> 12 \<and> 1 \<le> d \<and> d \<le> days_in_month y m
              then Some (Date y m d) else None)
      | _ \<Rightarrow> None)"

section \<open>Sample centers, pages and replies\<close>

text \<open>
  Concrete inputs on which the theorems below are instantiated.  A sample environment
  answers the one request it expects and parses the one text it expects, with the tree or
  value the real parser gives for that text.
\<close>

definition sample_center :: DachauMedVaccinationCenter where
  "sample_center =
     \<lparr>vaccine_type = Biontech, round_num = Some 1, name = ''Impfzentrum Dachau'',
      salon_id = ''3'', url = ''https://termin.dachau-med.de/impfungen03/'',
      ajax_url = JStr ''https://termin.dachau-med.de/wp-admin/admin-ajax.php'',
      ajax_none = JStr ''f3a9c01b27''\<rparr>"

definition checker_env :: "response \<Rightarrow> string \<Rightarrow> node \<Rightarrow> string \<Rightarrow> exn + json \<Rightarrow> env" where
  "checker_env r html soup attr parsed =
     \<lparr>session_get = (\<lambda>u. Inl (OtherError ''ConnectionError'')),
      requests_post =
        (\<lambda>u d. if u = JStr ''https://termin.dachau-med.de/wp-admin/admin-ajax.php''
               then Inr r else Inl (OtherError ''ConnectionError'')),
      BeautifulSoup = (\<lambda>m. if m = JStr html then Inr soup else Inl TypeError),
      json_loads = (\<lambda>s. if s = attr then parsed else Inl (ValueError ''Expecting value''))\<rparr>"

text \<open>A reply whose body is the JSON object with the given HTML under \<open>content\<close>.\<close>

definition reply_with :: "string \<Rightarrow> response" where
  \<open>reply_with html =
     \<lparr>status_code = 200,
      response_text = ''{"content": "'' @ html @ ''"}'',
      response_json = Inr (JObj [(''content'', JStr html)])\<rparr>\<close>

text \<open>A document with one \<open>div\<close> that carries \<open>data-intervals\<close> and the given children.\<close>

definition intervals_div :: "string \<Rightarrow> node list \<Rightarrow> node" where
  "intervals_div attr children = Tag ''div'' [(''data-intervals'', attr)] children"

definition intervals_soup :: "string \<Rightarrow> node list \<Rightarrow> node" where
  "intervals_soup attr children = Tag ''[document]'' [] [intervals_div attr children]"

text \<open>Two free days, no marker text.\<close>

definition dates_html :: string where
  \<open>dates_html = ''<div data-intervals='{&quot;dates&quot;:[&quot;2021-06-01&quot;,&quot;2021-06-03&quot;]}'></div>''\<close>

definition dates_attr :: string where
  \<open>dates_attr = ''{"dates":["2021-06-01","2021-06-03"]}''\<close>

definition dates_env :: env where
  "dates_env = checker_env (reply_with dates_html) dates_html (intervals_soup dates_attr [])
     dates_attr (Inr (JObj [(''dates'', JArr [JStr ''2021-06-01'', JStr ''2021-06-03''])]))"

text \<open>One free day, and the words \<open>Keine freien Termine\<close> in the text of the page.\<close>

definition marked_html :: string where
  \<open>marked_html = ''<div data-intervals='{&quot;dates&quot;:[&quot;2021-06-01&quot;]}'>Keine freien Termine vor Juni</div>''\<close>

definition marked_attr :: string where
  \<open>marked_attr = ''{"dates":["2021-06-01"]}''\<close>

definition marked_env :: env where
  "marked_env = checker_env (reply_with marked_html) marked_html
     (intervals_soup marked_attr [NavigableString ''Keine freien Termine vor Juni''])
     marked_attr (Inr (JObj [(''dates'', JArr [JStr ''2021-06-01''])]))"

text \<open>A date in the German notation among the dates, no marker text.\<close>

definition malformed_html :: string where
  \<open>malformed_html = ''<div data-intervals='{&quot;dates&quot;:[&quot;2021-06-01&quot;,&quot;03.06.2021&quot;]}'></div>''\<close>

definition malformed_attr :: string where
  \<open>malformed_attr = ''{"dates":["2021-06-01","03.06.2021"]}''\<close>

definition malformed_env :: env where
  "malformed_env = checker_env (reply_with malformed_html) malformed_html
     (intervals_soup malformed_attr []) malformed_attr
     (Inr (JObj [(''dates'', JArr [JStr ''2021-06-01'', JStr ''03.06.2021''])]))"

text \<open>The same malformed date, and the words \<open>Keine freien Termine\<close> in the page.\<close>

definition marked_malformed_html :: string where
  \<open>marked_malformed_html = ''<div data-intervals='{&quot;dates&quot;:[&quot;03.06.2021&quot;]}'>Keine freien Termine vor Juni</div>''\<close>

definition marked_malformed_attr :: string where
  \<open>marked_malformed_attr = ''{"dates":["03.06.2021"]}''\<close>

definition marked_malformed_env :: env where
  "marked_malformed_env = checker_env (reply_with marked_malformed_html) marked_malformed_html
     (intervals_soup marked_malformed_attr [NavigableString ''Keine freien Termine vor Juni''])
     marked_malformed_attr (Inr (JObj [(''dates'', JArr [JStr ''03.06.2021''])]))"

text \<open>A date without the leading zeros, no marker text.\<close>

definition unpadded_html :: string where
  \<open>unpadded_html = ''<div data-intervals='{&quot;dates&quot;:[&quot;2021-6-1&quot;]}'></div>''\<close>

definition unpadded_attr :: string where
  \<open>unpadded_attr = ''{"dates":["2021-6-1"]}''\<close>

definition unpadded_env :: env where
  "unpadded_env = checker_env (reply_with unpadded_html) unpadded_html
     (intervals_soup unpadded_attr []) unpadded_attr
     (Inr (JObj [(''dates'', JArr [JStr ''2021-6-1''])]))"

text \<open>A page without any \<open>data-intervals\<close> attribute.\<close>

definition plain_html :: string where
  "plain_html = ''<p class='sln-alert'>Bitte einen Standort w&auml;hlen</p>''"

definition plain_soup :: node where
  "plain_soup =
     Tag ''[document]'' []
       [Tag ''p'' [(''class'', ''sln-alert'')]
          [NavigableString (''Bitte einen Standort w'' @ [char_of (228::nat)] @ ''hlen'')]]"

definition plain_env :: env where
  "plain_env = checker_env (reply_with plain_html) plain_html plain_soup []
     (Inl (ValueError ''Expecting value''))"

text \<open>The plain-text reply of the site when nothing is free: not JSON at all.\<close>

definition none_free_response :: response where
  "none_free_response =
     \<lparr>status_code = 200,
      response_text = ''Keine freien Termine'',
      response_json = Inl (ValueError ''Expecting value'')\<rparr>"

definition none_free_env :: env where
  "none_free_env = checker_env none_free_response [] (Tag ''[document]'' [] []) []
     (Inl (ValueError ''Expecting value''))"

text \<open>A \<open>data-intervals\<close> object without \<open>dates\<close>, with and without the marker text.\<close>

definition keyless_html :: string where
  \<open>keyless_html = ''<div data-intervals='{&quot;times&quot;:[]}'></div>''\<close>

definition keyless_attr :: string where
  \<open>keyless_attr = ''{"times":[]}''\<close>

definition keyless_env :: env where
  "keyless_env = checker_env (reply_with keyless_html) keyless_html
     (intervals_soup keyless_attr []) keyless_attr (Inr (JObj [(''times'', JArr [])]))"

definition marked_keyless_html :: string where
  \<open>marked_keyless_html = ''<div data-intervals='{&quot;times&quot;:[]}'>Keine freien Termine</div>''\<close>

definition marked_keyless_env :: env where
  "marked_keyless_env = checker_env (reply_with marked_keyless_html) marked_keyless_html
     (intervals_soup keyless_attr [NavigableString ''Keine freien Termine''])
     keyless_attr (Inr (JObj [(''times'', JArr [])]))"

text \<open>A booking page with two shops, and the same page without its shop list.\<close>

definition page_env :: "response \<Rightarrow> node \<Rightarrow> string \<Rightarrow> json \<Rightarrow> env" where
  "page_env r soup payload extra =
     \<lparr>session_get = (\<lambda>u. Inr r),
      requests_post = (\<lambda>u d. Inl (OtherError ''ConnectionError'')),
      BeautifulSoup = (\<lambda>m. if m = JStr (response_text r) then Inr soup else Inl TypeError),
      json_loads = (\<lambda>s. if s = payload then Inr extra else Inl (ValueError ''Expecting value''))\<rparr>"

definition extra_payload :: string where
  \<open>extra_payload = ''{"ajax_url":"https://termin.dachau-med.de/wp-admin/admin-ajax.php","ajax_nonce":"f3a9c01b27"}''\<close>

definition extra_script :: string where
  "extra_script = ''var salon = '' @ extra_payload @ '';''"

definition extra_object :: json where
  "extra_object =
     JObj [(''ajax_url'', JStr ''https://termin.dachau-med.de/wp-admin/admin-ajax.php''),
           (''ajax_nonce'', JStr ''f3a9c01b27'')]"

definition shops_html :: string where
  "shops_html = ''<div class='sln-shop-list sln-box'><select name='sln[shop]'><option value='3'> Impfzentrum Dachau </option><option value='7'>Impfzentrum Karlsfeld</option></select></div>''"

definition shops_div :: node where
  "shops_div =
     Tag ''div'' [(''class'', ''sln-shop-list sln-box'')]
       [Tag ''select'' [(''name'', ''sln[shop]'')]
          [Tag ''option'' [(''value'', ''3'')] [NavigableString '' Impfzentrum Dachau ''],
           Tag ''option'' [(''value'', ''7'')] [NavigableString ''Impfzentrum Karlsfeld'']]]"

definition page_html :: "string \<Rightarrow> string" where
  "page_html inner =
     ''<html><body><form id='salon-step-attendant' method='post'>'' @ inner
       @ ''</form><script id='salon-js-extra'>'' @ extra_script @ ''</script></body></html>''"

definition page_soup :: "node list \<Rightarrow> node" where
  "page_soup inner =
     Tag ''[document]'' []
       [Tag ''html'' []
          [Tag ''body'' []
             [Tag ''form'' [(''id'', ''salon-step-attendant''), (''method'', ''post'')] inner,
              Tag ''script'' [(''id'', ''salon-js-extra'')] [SpecialString extra_script]]]]"

definition page_response :: "string \<Rightarrow> response" where
  "page_response inner =
     \<lparr>status_code = 200, response_text = page_html inner,
      response_json = Inl (ValueError ''Expecting value'')\<rparr>"

definition shops_env :: env where
  "shops_env = page_env (page_response shops_html) (page_soup [shops_div]) extra_payload extra_object"

definition closed_env :: env where
  "closed_env = page_env (page_response ''<p>Geschlossen</p>'')
     (page_soup [Tag ''p'' [] [NavigableString ''Geschlossen'']]) extra_payload extra_object"

text \<open>The centers of the sample page, for a given page address, vaccine and dose.\<close>

definition centers_on :: "string \<Rightarrow> VaccineType \<Rightarrow> int option \<Rightarrow> DachauMedVaccinationCenter list" where
  "centers_on u vt rn =
     [\<lparr>vaccine_type = vt, round_num = rn, name = ''Impfzentrum Dachau'', salon_id = ''3'',
       url = u, ajax_url = JStr ''https://termin.dachau-med.de/wp-admin/admin-ajax.php'',
       ajax_none = JStr ''f3a9c01b27''\<rparr>,
      \<lparr>vaccine_type = vt, round_num = rn, name = ''Impfzentrum Karlsfeld'', salon_id = ''7'',
       url = u, ajax_url = JStr ''https://termin.dachau-med.de/wp-admin/admin-ajax.php'',
       ajax_none = JStr ''f3a9c01b27''\<rparr>]"

text \<open>Three settings files: one without \<open>token\<close>, one with \<open>token\<close> only, one that sets
  every field, the period to a negative number.\<close>

definition full_settings :: json where
  "full_settings =
     JObj [(''token'', JStr ''000000:EXAMPLE-TOKEN''),
           (''admin_chat_id'', JInt 0),
           (''database_spec'', JStr ''sqlite:///:memory:''),
           (''check_period'', JInt (- 5)),
           (''log_format'', JStr ''%(message)s'')]"

definition sample_loader :: loader where
  "sample_loader =
     \<lparr>open_file =
        (\<lambda>f. if f = ''no_token.yml'' then Inr ''check_period: 60''
             else if f = ''token_only.yml''
               then Inr ''token: 000000:EXAMPLE-TOKEN''
             else if f = ''full.yml'' then Inr ''full''
             else Inl (OtherError ''FileNotFoundError'')),
      yaml_parse =
        (\<lambda>s. if s = ''check_period: 60'' then Inr (JObj [(''check_period'', JInt 60)])
             else if s = ''token: 000000:EXAMPLE-TOKEN''
               then Inr (JObj [(''token'', JStr ''000000:EXAMPLE-TOKEN'')])
             else if s = ''full'' then Inr full_settings
             else Inl (OtherError ''YAMLError'')),
      as_str = (\<lambda>j. case j of JStr s \<Rightarrow> Inr s | _ \<Rightarrow> Inl TypeError),
      as_int = (\<lambda>j. case j of JInt n \<Rightarrow> Inr n | _ \<Rightarrow> Inl TypeError)\<rparr>"

section \<open>Properties of the date parser\<close>

lemma month_alts_two:
  assumes "is_digit a" "is_digit b"
    and "1 \<le> 10 * digit_val a + digit_val b" "10 * digit_val a + digit_val b \<le> 12"
  shows "\<exists>tl. month_alts (a # b # r) = (10 * digit_val a + digit_val b, r) # tl"
  using assms unfolding month_alts_def is_digit_def digit_val_def in_range_def
  by (cases "ord a = 49"; cases "ord a = 48"; simp; arith)

lemma days_in_month_le: "days_in_month y m \<le> 31"
  by (simp add: days_in_month_def)

lemma day_alts_two:
  assumes "is_digit a" "is_digit b"
    and "1 \<le> 10 * digit_val a + digit_val b" "10 * digit_val a + digit_val b \<le> 31"
  shows "\<exists>tl. day_alts (a # b # r) = (10 * digit_val a + digit_val b, r) # tl"
  using assms unfolding day_alts_def is_digit_def digit_val_def in_range_def
  by (cases "ord a = 51"; cases "ord a = 48"; cases "ord a = 49"; cases "ord a = 50";
      simp; arith)

text \<open>Every well-formed ISO date string is accepted by \<open>strptime\<close>, with the date it
  denotes.\<close>

lemma strptime_iso_date:
  assumes "iso_date s = Some dt"
  shows "strptime_ymd s = Inr dt"
proof -
  from assms obtain y1 y2 y3 y4 s1 m1 m2 s2 d1 d2 where
    s: "s = [y1, y2, y3, y4, s1, m1, m2, s2, d1, d2]"
    unfolding iso_date_def by (auto split: list.splits)
  define y where "y = 1000 * digit_val y1 + 100 * digit_val y2 + 10 * digit_val y3 + digit_val y4"
  define m where "m = 10 * digit_val m1 + digit_val m2"
  define d where "d = 10 * digit_val d1 + digit_val d2"
  from assms have ok:
    "is_digit y1" "is_digit y2" "is_digit y3" "is_digit y4" "ord s1 = 45"
    "is_digit m1" "is_digit m2" "ord s2 = 45" "is_digit d1" "is_digit d2"
    "1 \<le> y" "1 \<le> m" "m \<le> 12" "1 \<le> d" "d \<le> days_in_month y m"
    and dt: "dt = Date y m d"
    unfolding s iso_date_def y_def m_def d_def
    by (simp_all add: Let_def split: if_splits)
  from ok(15) have d31: "d \<le> 31" using days_in_month_le [of y m] by simp
  obtain tm where tm: "month_alts [m1, m2, s2, d1, d2] = (m, [s2, d1, d2]) # tm"
    using month_alts_two [OF ok(6) ok(7), of "[s2, d1, d2]"] ok(12) ok(13)
    unfolding m_def by auto
  obtain td where td: "day_alts [d1, d2] = (d, []) # td"
    using day_alts_two [OF ok(9) ok(10), of "[]"] ok(14) d31
    unfolding d_def by auto
  have "regex_match_ymd s = Some (y, m, d, [])"
    unfolding s regex_match_ymd_def
    using ok(1-5) ok(8) tm td by (simp add: after_dash_def y_def)
  then show ?thesis
    unfolding strptime_ymd_def using ok(11) ok(15) dt by simp
qed

section \<open>Properties of the availability check\<close>

lemma find_first_Some:
  assumes "find_first P t = Some d"
  shows "is_tag d \<and> P d"
proof -
  from assms obtain ds where "filter (\<lambda>d. is_tag d \<and> P d) (descendants t) = d # ds"
    unfolding find_first_def find_all_def by (auto split: list.splits)
  then have "d \<in> set (filter (\<lambda>d. is_tag d \<and> P d) (descendants t))"
    by simp
  then show ?thesis by simp
qed

lemma map_exn_strptime_iso:
  "map iso_date ss = map Some dts \<Longrightarrow> map_exn strptime (map JStr ss) = Inr dts"
proof (induction ss arbitrary: dts)
  case Nil
  then show ?case by simp
next
  case (Cons s ss)
  then obtain d ds where dts: "dts = d # ds" and d: "iso_date s = Some d"
    and ds: "map iso_date ss = map Some ds"
    by (cases dts) auto
  from Cons.IH [OF ds] strptime_iso_date [OF d] show ?case
    by (simp add: dts)
qed

lemma sample_post:
  "requests_post (checker_env r html soup attr parsed) (ajax_url sample_center)
     (post_data sample_center) = Inr r"
  by (simp add: checker_env_def sample_center_def)

lemma reply_with_json:
  "response_json (reply_with html) = Inr (JObj [(''content'', JStr html)])"
  by (simp add: reply_with_def)

lemma intervals_soup_find:
  "find_first has_data_intervals (intervals_soup attr children) = Some (intervals_div attr children)"
  by (simp add: intervals_soup_def intervals_div_def find_first_def find_all_def
      has_data_intervals_def)

lemma intervals_div_attr:
  "attrs (intervals_div attr children) ''data-intervals'' = Some attr"
  by (simp add: intervals_div_def)

text \<open>
  C1 (as amended).  When the body of the reply does not contain the words
  \<open>Keine freien Termine\<close>, its JSON has a \<open>content\<close> entry, and the first element of the
  parsed content that carries \<open>data-intervals\<close> holds an object whose \<open>dates\<close> entry is
  a list of well-formed ISO date strings, \<open>check_availability\<close> returns the mapping with
  the single key \<open>(vaccine_type, round_num)\<close>, whose value holds the dates the strings
  denote, in order, and no "not available until" date; nothing is logged.
\<close>

theorem check_availability_dates:
  assumes "requests_post env (ajax_url c) (post_data c) = Inr response"
    and "\<not> str_contains ''Keine freien Termine'' (response_text response)"
    and "response_json response = Inr body"
    and "getitem body ''content'' = Inr content"
    and "BeautifulSoup env content = Inr soup"
    and "find_first has_data_intervals soup = Some data_node"
    and "attrs data_node ''data-intervals'' = Some v"
    and "json_loads env v = Inr intervals"
    and "getitem intervals ''dates'' = Inr (JArr (map JStr ss))"
    and "map iso_date ss = map Some dts"
  shows "check_availability env c =
           (Inr [(vaccine_type c, round_num c)
                   \<mapsto> \<lparr>dates = dts, not_available_until = None\<rparr>], [])"
  unfolding check_availability_def
  using assms(1-9) map_exn_strptime_iso [OF assms(10)] by simp

theorem check_availability_dates_witness:
  "check_availability dates_env sample_center =
     (Inr [(Biontech, Some 1)
             \<mapsto> \<lparr>dates = [Date 2021 6 1, Date 2021 6 3], not_available_until = None\<rparr>], [])"
proof -
  have h2: "\<not> str_contains ''Keine freien Termine'' (response_text (reply_with dates_html))"
    by (simp add: reply_with_def dates_html_def)
  have h4: "getitem (JObj [(''content'', JStr dates_html)]) ''content'' = Inr (JStr dates_html)"
    by simp
  have h5: "BeautifulSoup dates_env (JStr dates_html) = Inr (intervals_soup dates_attr [])"
    by (simp add: dates_env_def checker_env_def)
  have h8: "json_loads dates_env dates_attr
              = Inr (JObj [(''dates'', JArr [JStr ''2021-06-01'', JStr ''2021-06-03''])])"
    by (simp add: dates_env_def checker_env_def)
  have h9: "getitem (JObj [(''dates'', JArr [JStr ''2021-06-01'', JStr ''2021-06-03''])]) ''dates''
              = Inr (JArr (map JStr [''2021-06-01'', ''2021-06-03'']))"
    by simp
  have h10: "map iso_date [''2021-06-01'', ''2021-06-03'']
               = map Some [Date 2021 6 1, Date 2021 6 3]"
    by (simp add: iso_date_def is_digit_def digit_val_def ord_def days_in_month_def)
  show ?thesis
    using check_availability_dates [of dates_env sample_center, unfolded dates_env_def,
        OF sample_post, folded dates_env_def, OF h2 reply_with_json h4 h5 intervals_soup_find
        intervals_div_attr h8 h9 h10]
    by (simp add: sample_center_def)
qed

text \<open>
  The claim as written, with no condition on the words \<open>Keine freien Termine\<close>, fails:
  this reply has a \<open>data-intervals\<close> element with one well-formed date, and the check
  returns the empty mapping because the words occur in the body.
\<close>

theorem check_availability_dates_counterexample:
  "requests_post marked_env (ajax_url sample_center) (post_data sample_center)
     = Inr (reply_with marked_html)
   \<and> response_json (reply_with marked_html) = Inr (JObj [(''content'', JStr marked_html)])
   \<and> BeautifulSoup marked_env (JStr marked_html)
       = Inr (intervals_soup marked_attr [NavigableString ''Keine freien Termine vor Juni''])
   \<and> json_loads marked_env marked_attr = Inr (JObj [(''dates'', JArr [JStr ''2021-06-01''])])
   \<and> iso_date ''2021-06-01'' = Some (Date 2021 6 1)
   \<and> check_availability marked_env sample_center = (Inr Map.empty, [])
   \<and> fst (check_availability marked_env sample_center)
       \<noteq> Inr [(Biontech, Some 1) \<mapsto> \<lparr>dates = [Date 2021 6 1], not_available_until = None\<rparr>]"
proof -
  have m: "str_contains ''Keine freien Termine'' (response_text (reply_with marked_html))"
    by (simp add: reply_with_def marked_html_def)
  have p: "requests_post marked_env (ajax_url sample_center) (post_data sample_center)
             = Inr (reply_with marked_html)"
    by (simp add: marked_env_def sample_post)
  have b: "BeautifulSoup marked_env (JStr marked_html)
             = Inr (intervals_soup marked_attr [NavigableString ''Keine freien Termine vor Juni''])"
    by (simp add: marked_env_def checker_env_def)
  have j: "json_loads marked_env marked_attr = Inr (JObj [(''dates'', JArr [JStr ''2021-06-01''])])"
    by (simp add: marked_env_def checker_env_def)
  have d: "iso_date ''2021-06-01'' = Some (Date 2021 6 1)"
    by (simp add: iso_date_def is_digit_def digit_val_def ord_def days_in_month_def)
  have r: "check_availability marked_env sample_center = (Inr Map.empty, [])"
    unfolding check_availability_def using m p by simp
  have n: "fst (check_availability marked_env sample_center)
       \<noteq> Inr [(Biontech, Some 1) \<mapsto> \<lparr>dates = [Date 2021 6 1], not_available_until = None\<rparr>]"
  proof
    assume "fst (check_availability marked_env sample_center)
       = Inr [(Biontech, Some 1) \<mapsto> \<lparr>dates = [Date 2021 6 1], not_available_until = None\<rparr>]"
    then have "[(Biontech, Some (1::int)) \<mapsto> \<lparr>dates = [Date 2021 6 1], not_available_until = None\<rparr>]
                 = Map.empty"
      by (simp only: r fst_conv sum.inject)
    then show False
      by (simp only: map_upd_nonempty)
  qed
  from p reply_with_json b j d r n show ?thesis
    by blast
qed

lemma strptime_ymd_error:
  assumes "strptime_ymd s = Inl e"
  shows "\<exists>msg. e = ValueError msg"
  using assms unfolding strptime_ymd_def
  by (auto split: option.splits prod.splits if_splits)

lemma map_exn_strptime_reject:
  assumes "\<exists>s \<in> set ss. isl (strptime_ymd s)"
  shows "\<exists>msg. map_exn strptime (map JStr ss) = Inl (ValueError msg)"
  using assms
proof (induction ss)
  case Nil
  then show ?case by simp
next
  case (Cons s ss)
  show ?case
  proof (cases "strptime_ymd s")
    case (Inl e)
    with strptime_ymd_error [OF Inl] show ?thesis by auto
  next
    case (Inr d)
    with Cons.prems have "\<exists>s \<in> set ss. isl (strptime_ymd s)" by auto
    from Cons.IH [OF this] Inr show ?thesis by auto
  qed
qed

lemma sample_parsers:
  "BeautifulSoup (checker_env r html soup attr parsed) (JStr html) = Inr soup"
  "json_loads (checker_env r html soup attr parsed) attr = parsed"
  by (simp_all add: checker_env_def)

lemma getitem_content:
  "getitem (JObj [(''content'', v)]) ''content'' = Inr v"
  by simp

text \<open>
  C3 (as amended).  When the body of the reply does not contain the words
  \<open>Keine freien Termine\<close> and the \<open>dates\<close> list of the first \<open>data-intervals\<close> element is a
  list of strings of which at least one is rejected by \<open>strptime(d, '%Y-%m-%d')\<close>,
  \<open>check_availability\<close> raises \<open>ValueError\<close>, the parse error; it writes no log record, so
  the error is not swallowed as the missing attribute is.
\<close>

theorem check_availability_malformed_date:
  assumes "requests_post env (ajax_url c) (post_data c) = Inr response"
    and "\<not> str_contains ''Keine freien Termine'' (response_text response)"
    and "response_json response = Inr body"
    and "getitem body ''content'' = Inr content"
    and "BeautifulSoup env content = Inr soup"
    and "find_first has_data_intervals soup = Some data_node"
    and "attrs data_node ''data-intervals'' = Some v"
    and "json_loads env v = Inr intervals"
    and "getitem intervals ''dates'' = Inr (JArr (map JStr ss))"
    and "\<exists>s \<in> set ss. isl (strptime_ymd s)"
  shows "\<exists>msg. check_availability env c = (Inl (ValueError msg), [])"
proof -
  from map_exn_strptime_reject [OF assms(10)] obtain msg where
    "map_exn strptime (map JStr ss) = Inl (ValueError msg)" ..
  with assms(1-9) have "check_availability env c = (Inl (ValueError msg), [])"
    unfolding check_availability_def by simp
  then show ?thesis ..
qed

theorem check_availability_malformed_date_witness:
  "\<exists>msg. check_availability malformed_env sample_center = (Inl (ValueError msg), [])"
proof -
  have h2: "\<not> str_contains ''Keine freien Termine'' (response_text (reply_with malformed_html))"
    by (simp add: reply_with_def malformed_html_def)
  have h9: "getitem (JObj [(''dates'', JArr [JStr ''2021-06-01'', JStr ''03.06.2021''])]) ''dates''
              = Inr (JArr (map JStr [''2021-06-01'', ''03.06.2021'']))"
    by simp
  have "isl (strptime_ymd ''03.06.2021'')"
    by (simp add: strptime_ymd_def regex_match_ymd_def is_digit_def ord_def)
  then have h10: "\<exists>s \<in> set [''2021-06-01'', ''03.06.2021'']. isl (strptime_ymd s)"
    by simp
  show ?thesis
    using check_availability_malformed_date [of malformed_env sample_center,
        unfolded malformed_env_def, OF sample_post h2 reply_with_json getitem_content
        sample_parsers(1) intervals_soup_find intervals_div_attr sample_parsers(2) h9 h10]
    by (simp add: malformed_env_def)
qed

text \<open>
  The claim as written fails in two ways.  A reply that has the words
  \<open>Keine freien Termine\<close> in its body and a malformed date in \<open>data-intervals\<close> yields
  the empty mapping and no error.  And \<open>strptime\<close> takes months and days without their
  leading zero: \<open>2021-6-1\<close> is not an ISO date string, yet it is parsed, not rejected.
\<close>

theorem check_availability_malformed_date_counterexample:
  "json_loads marked_malformed_env marked_malformed_attr
     = Inr (JObj [(''dates'', JArr [JStr ''03.06.2021''])])
   \<and> iso_date ''03.06.2021'' = None
   \<and> check_availability marked_malformed_env sample_center = (Inr Map.empty, [])
   \<and> json_loads unpadded_env unpadded_attr = Inr (JObj [(''dates'', JArr [JStr ''2021-6-1''])])
   \<and> iso_date ''2021-6-1'' = None
   \<and> check_availability unpadded_env sample_center =
       (Inr [(Biontech, Some 1)
               \<mapsto> \<lparr>dates = [Date 2021 6 1], not_available_until = None\<rparr>], [])"
proof -
  have j1: "json_loads marked_malformed_env marked_malformed_attr
              = Inr (JObj [(''dates'', JArr [JStr ''03.06.2021''])])"
    by (simp add: marked_malformed_env_def sample_parsers)
  have i1: "iso_date ''03.06.2021'' = None"
    by (simp add: iso_date_def is_digit_def ord_def)
  have m: "str_contains ''Keine freien Termine''
             (response_text (reply_with marked_malformed_html))"
    by (simp add: reply_with_def marked_malformed_html_def)
  have r1: "check_availability marked_malformed_env sample_center = (Inr Map.empty, [])"
    unfolding check_availability_def marked_malformed_env_def
    using m by (simp add: sample_post)
  have j2: "json_loads unpadded_env unpadded_attr = Inr (JObj [(''dates'', JArr [JStr ''2021-6-1''])])"
    by (simp add: unpadded_env_def sample_parsers)
  have i2: "iso_date ''2021-6-1'' = None"
    by (simp add: iso_date_def)
  have n: "\<not> str_contains ''Keine freien Termine'' (response_text (reply_with unpadded_html))"
    by (simp add: reply_with_def unpadded_html_def)
  have s: "strptime_ymd ''2021-6-1'' = Inr (Date 2021 6 1)"
    by (simp add: strptime_ymd_def regex_match_ymd_def is_digit_def ord_def digit_val_def
        after_dash_def month_alts_def day_alts_def in_range_def days_in_month_def)
  have r2: "check_availability unpadded_env sample_center =
       (Inr [(Biontech, Some 1)
               \<mapsto> \<lparr>dates = [Date 2021 6 1], not_available_until = None\<rparr>], [])"
    unfolding check_availability_def unpadded_env_def
    using n s
    by (simp add: sample_post reply_with_json sample_parsers intervals_soup_find
        intervals_div_attr) (simp add: sample_center_def)
  from j1 i1 r1 j2 i2 r2 show ?thesis by blast
qed

text \<open>
  C4.  When the body of the reply does not contain the words \<open>Keine freien Termine\<close> and
  the parsed \<open>content\<close> of its JSON has no element with a \<open>data-intervals\<close> attribute,
  \<open>check_availability\<close> returns the empty mapping, raising nothing, and writes one error
  record to the log, with the content as its argument.
\<close>

theorem check_availability_missing_node:
  assumes "requests_post env (ajax_url c) (post_data c) = Inr response"
    and "\<not> str_contains ''Keine freien Termine'' (response_text response)"
    and "response_json response = Inr body"
    and "getitem body ''content'' = Inr content"
    and "BeautifulSoup env content = Inr soup"
    and "find_first has_data_intervals soup = None"
  shows "check_availability env c = (Inr Map.empty, [LogError missing_node_msg [content]])"
  unfolding check_availability_def using assms by simp

theorem check_availability_missing_node_witness:
  "check_availability plain_env sample_center
     = (Inr Map.empty, [LogError missing_node_msg [JStr plain_html]])"
proof -
  have h2: "\<not> str_contains ''Keine freien Termine'' (response_text (reply_with plain_html))"
    by (simp add: reply_with_def plain_html_def)
  have h6: "find_first has_data_intervals plain_soup = None"
    by (simp add: plain_soup_def find_first_def find_all_def has_data_intervals_def)
  show ?thesis
    using check_availability_missing_node [of plain_env sample_center,
        unfolded plain_env_def, OF sample_post h2 reply_with_json getitem_content
        sample_parsers(1) h6]
    by (simp add: plain_env_def)
qed

text \<open>
  C5.  When the body of the reply contains the words \<open>Keine freien Termine\<close>,
  \<open>check_availability\<close> returns the empty mapping, raising nothing and logging nothing,
  whatever \<open>response.json()\<close> would return or raise: the body is never parsed.
\<close>

theorem check_availability_none_free:
  assumes "requests_post env (ajax_url c) (post_data c) = Inr response"
    and "str_contains ''Keine freien Termine'' (response_text response)"
  shows "check_availability env c = (Inr Map.empty, [])"
  unfolding check_availability_def using assms by simp

theorem check_availability_none_free_witness:
  "response_json none_free_response = Inl (ValueError ''Expecting value'')
   \<and> check_availability none_free_env sample_center = (Inr Map.empty, [])"
proof -
  have h2: "str_contains ''Keine freien Termine'' (response_text none_free_response)"
    by (simp add: none_free_response_def)
  show ?thesis
    using check_availability_none_free [of none_free_env sample_center,
        unfolded none_free_env_def, OF sample_post h2]
    by (simp add: none_free_env_def none_free_response_def)
qed

text \<open>
  C10 (as amended).  When the body of the reply does not contain the words
  \<open>Keine freien Termine\<close> and the \<open>data-intervals\<close> attribute of the first element that
  has one parses to an object without a \<open>dates\<close> key, \<open>check_availability\<close> raises
  \<open>KeyError\<close> for \<open>dates\<close> and writes no log record: the tolerant branch is not taken.
\<close>

theorem check_availability_no_dates_key:
  assumes "requests_post env (ajax_url c) (post_data c) = Inr response"
    and "\<not> str_contains ''Keine freien Termine'' (response_text response)"
    and "response_json response = Inr body"
    and "getitem body ''content'' = Inr content"
    and "BeautifulSoup env content = Inr soup"
    and "find_first has_data_intervals soup = Some data_node"
    and "attrs data_node ''data-intervals'' = Some v"
    and "json_loads env v = Inr (JObj kvs)"
    and "map_of kvs ''dates'' = None"
  shows "check_availability env c = (Inl (KeyError ''dates''), [])"
  unfolding check_availability_def using assms by simp

theorem check_availability_no_dates_key_witness:
  "check_availability keyless_env sample_center = (Inl (KeyError ''dates''), [])"
proof -
  have h2: "\<not> str_contains ''Keine freien Termine'' (response_text (reply_with keyless_html))"
    by (simp add: reply_with_def keyless_html_def)
  have h9: "map_of [(''times'', JArr [])] ''dates'' = None"
    by simp
  show ?thesis
    using check_availability_no_dates_key [of keyless_env sample_center,
        unfolded keyless_env_def, OF sample_post h2 reply_with_json getitem_content
        sample_parsers(1) intervals_soup_find intervals_div_attr sample_parsers(2) h9]
    by (simp add: keyless_env_def)
qed

text \<open>
  The claim as written, with no condition on the words \<open>Keine freien Termine\<close>, fails:
  this reply has a \<open>data-intervals\<close> object without \<open>dates\<close>, and the check returns the
  empty mapping without raising, because the words occur in the body.
\<close>

theorem check_availability_no_dates_key_counterexample:
  "json_loads marked_keyless_env keyless_attr = Inr (JObj [(''times'', JArr [])])
   \<and> map_of [(''times'', JArr [])] ''dates'' = None
   \<and> check_availability marked_keyless_env sample_center = (Inr Map.empty, [])"
proof -
  have j: "json_loads marked_keyless_env keyless_attr = Inr (JObj [(''times'', JArr [])])"
    by (simp add: marked_keyless_env_def sample_parsers)
  have k: "map_of [(''times'', JArr [])] ''dates'' = None"
    by simp
  have m: "str_contains ''Keine freien Termine''
             (response_text (reply_with marked_keyless_html))"
    by (simp add: reply_with_def marked_keyless_html_def)
  have r: "check_availability marked_keyless_env sample_center = (Inr Map.empty, [])"
    unfolding check_availability_def marked_keyless_env_def
    using m by (simp add: sample_post)
  from j k r show ?thesis by blast
qed

section \<open>Properties of the discovery\<close>

lemma shops_env_parts:
  "session_get shops_env u = Inr (page_response shops_html)"
  "raise_for_status (page_response shops_html) = Inr ()"
  "BeautifulSoup shops_env (JStr (response_text (page_response shops_html)))
     = Inr (page_soup [shops_div])"
  "json_loads shops_env extra_payload = Inr extra_object"
  by (simp_all add: shops_env_def page_env_def page_response_def raise_for_status_def)

lemma page_soup_form:
  "find_first is_step_form (page_soup inner) \<noteq> None"
  by (simp add: page_soup_def find_first_def find_all_def is_step_form_def has_id_def)

lemma shops_soup_list:
  "find_first is_shop_list (page_soup [shops_div]) = Some shops_div"
  by (simp add: page_soup_def shops_div_def find_first_def find_all_def is_shop_list_def
      has_class_def isspace_def ord_def)

lemma shops_div_shops:
  "map_exn shop_of (find_all is_option shops_div)
     = Inr [(''3'', ''Impfzentrum Dachau''), (''7'', ''Impfzentrum Karlsfeld'')]"
  by (simp add: shops_div_def find_all_def is_option_def shop_of_def get_text_def strip_def
      isspace_def ord_def)

lemma shops_soup_extra:
  "find_first is_salon_extra (page_soup [shops_div])
     = Some (Tag ''script'' [(''id'', ''salon-js-extra'')] [SpecialString extra_script])"
  by (simp add: page_soup_def shops_div_def find_first_def find_all_def is_salon_extra_def
      has_id_def)

lemma extra_script_payload:
  "rstrip_chars '';'' (strip (partition_tail (CHR ''='') extra_script)) = extra_payload"
  by (simp add: extra_script_def extra_payload_def rstrip_chars_def strip_def isspace_def ord_def)

lemma shops_env_discovery:
  "get_vaccination_centers_for shops_env u vt rn = Inr (centers_on u vt rn)"
proof -
  obtain form where f: "find_first is_step_form (page_soup [shops_div]) = Some form"
    using page_soup_form [of "[shops_div]"] by auto
  show ?thesis
    unfolding get_vaccination_centers_for_def
    by (simp add: shops_env_parts f shops_soup_list shops_div_shops shops_soup_extra
        extra_script_payload) (simp add: extra_object_def centers_on_def)
qed

text \<open>
  C2.  When the four discoveries return their lists, \<open>get_vaccination_centers\<close> returns
  the four lists joined in the order JohnsonAndJohnson without dose, AstraZeneca dose 2,
  Biontech dose 1, Biontech dose 2, every element kept.
\<close>

theorem get_vaccination_centers_concat:
  assumes "get_vaccination_centers_for env JNJ_URL JohnsonAndJohnson None = Inr jnj"
    and "get_vaccination_centers_for env ASTRA_2_URL AstraZeneca (Some 2) = Inr astra2"
    and "get_vaccination_centers_for env BIONTECH_1_URL Biontech (Some 1) = Inr biontech1"
    and "get_vaccination_centers_for env BIONTECH_2_URL Biontech (Some 2) = Inr biontech2"
  shows "get_vaccination_centers env = Inr (jnj @ astra2 @ biontech1 @ biontech2)"
  unfolding get_vaccination_centers_def using assms by simp

theorem get_vaccination_centers_concat_witness:
  "get_vaccination_centers shops_env =
     Inr (centers_on JNJ_URL JohnsonAndJohnson None @ centers_on ASTRA_2_URL AstraZeneca (Some 2)
          @ centers_on BIONTECH_1_URL Biontech (Some 1) @ centers_on BIONTECH_2_URL Biontech (Some 2))
   \<and> map salon_id (centers_on JNJ_URL JohnsonAndJohnson None @ centers_on ASTRA_2_URL AstraZeneca (Some 2)
          @ centers_on BIONTECH_1_URL Biontech (Some 1) @ centers_on BIONTECH_2_URL Biontech (Some 2))
       = [''3'', ''7'', ''3'', ''7'', ''3'', ''7'', ''3'', ''7'']"
  using get_vaccination_centers_concat [OF shops_env_discovery shops_env_discovery
      shops_env_discovery shops_env_discovery]
  by (simp add: centers_on_def)

text \<open>
  C6.  When the page was fetched with a status that is no error and its parsed HTML has
  no \<open>div\<close> of class \<open>sln-shop-list\<close>, the discovery raises \<open>ValueError\<close>, the parse error
  (for the form when that is missing too, otherwise for the shop list): the result is an
  exception, never a list of centers.
\<close>

theorem discovery_missing_shop_list:
  assumes "session_get env u = Inr response"
    and "raise_for_status response = Inr ()"
    and "BeautifulSoup env (JStr (response_text response)) = Inr soup"
    and "find_first is_shop_list soup = None"
  shows "get_vaccination_centers_for env u vt rn =
           Inl (ValueError (if find_first is_step_form soup = None
                            then ''form#salon-step-attendant not found''
                            else ''div.sln-shop-list not found''))"
  unfolding get_vaccination_centers_for_def using assms
  by (simp split: option.splits)

theorem discovery_missing_shop_list_witness:
  "get_vaccination_centers_for closed_env BIONTECH_1_URL Biontech (Some 1)
     = Inl (ValueError ''div.sln-shop-list not found'')"
proof -
  have h1: "session_get closed_env BIONTECH_1_URL = Inr (page_response ''<p>Geschlossen</p>'')"
    by (simp add: closed_env_def page_env_def)
  have h2: "raise_for_status (page_response ''<p>Geschlossen</p>'') = Inr ()"
    by (simp add: page_response_def raise_for_status_def)
  have h3: "BeautifulSoup closed_env (JStr (response_text (page_response ''<p>Geschlossen</p>'')))
              = Inr (page_soup [Tag ''p'' [] [NavigableString ''Geschlossen'']])"
    by (simp add: closed_env_def page_env_def)
  have h4: "find_first is_shop_list (page_soup [Tag ''p'' [] [NavigableString ''Geschlossen'']])
              = None"
    by (simp add: page_soup_def find_first_def find_all_def is_shop_list_def has_class_def)
  show ?thesis
    using discovery_missing_shop_list [OF h1 h2 h3 h4, of Biontech "Some 1"]
      page_soup_form [of "[Tag ''p'' [] [NavigableString ''Geschlossen'']]"]
    by simp
qed

section \<open>Properties of the accessors\<close>

text \<open>
  C7.  \<open>uid\<close> depends on the vaccine type and the shop id only: two centers that agree
  on both have the same \<open>uid\<close>, whatever their name, address, endpoint, token and dose.
\<close>

theorem uid_deterministic:
  assumes "vaccine_type c1 = vaccine_type c2"
    and "salon_id c1 = salon_id c2"
  shows "uid c1 = uid c2"
  using assms by (simp add: uid_def)

theorem uid_deterministic_witness:
  "uid sample_center
     = uid (sample_center\<lparr>round_num := Some 2, name := ''Dachau (neu)'',
              url := ''https://termin.dachau-med.de/impfung/'',
              ajax_url := JStr ''https://termin.dachau-med.de/ajax'',
              ajax_none := JStr ''0b7e55d1aa''\<rparr>)
   \<and> uid sample_center = ''impfbot.contrib.de.bavaria.dachau:Biontech:3''"
  using uid_deterministic [of sample_center
      "sample_center\<lparr>round_num := Some 2, name := ''Dachau (neu)'',
              url := ''https://termin.dachau-med.de/impfung/'',
              ajax_url := JStr ''https://termin.dachau-med.de/ajax'',
              ajax_none := JStr ''0b7e55d1aa''\<rparr>"]
  by (simp add: uid_def sample_center_def plugin_module_def)

lemma map_exn_fields:
  assumes "map_exn f xs = Inr ys"
    and "\<And>x y. f x = Inr y \<Longrightarrow> h y = k x"
  shows "map h ys = map k xs"
  using assms(1)
proof (induction xs arbitrary: ys)
  case Nil
  then show ?case by simp
next
  case (Cons x xs)
  from Cons.prems obtain y ys' where y: "f x = Inr y" and ys': "map_exn f xs = Inr ys'"
    and ys: "ys = y # ys'"
    by (auto split: sum.splits)
  from assms(2) [OF y] Cons.IH [OF ys'] show ?case
    by (simp add: ys)
qed

lemma shop_names:
  assumes "map_exn shop_of opts = Inr shops"
  shows "map snd shops = map (\<lambda>opt. strip (get_text opt)) opts"
proof (rule map_exn_fields [OF assms])
  fix opt shop
  assume "shop_of opt = Inr shop"
  then show "snd shop = strip (get_text opt)"
    by (auto simp: shop_of_def split: option.splits)
qed

text \<open>
  C9.  \<open>location\<close> is the same string for every center, whatever its fields.  The text
  of the shop goes into \<open>name\<close>: the centers a discovery returns are named, in order,
  by the stripped texts of the page's shop options, and all have that one location.
\<close>

theorem location_constant:
  "location c = ''Germany, Bavaria, Landkreis Dachau''
   \<and> (session_get env u = Inr response
        \<longrightarrow> BeautifulSoup env (JStr (response_text response)) = Inr soup
        \<longrightarrow> find_first is_shop_list soup = Some shop_list
        \<longrightarrow> get_vaccination_centers_for env u vt rn = Inr cs
        \<longrightarrow> map name cs = map (\<lambda>opt. strip (get_text opt)) (find_all is_option shop_list)
            \<and> (\<forall>x \<in> set cs. location x = ''Germany, Bavaria, Landkreis Dachau''))"
proof (intro conjI impI)
  show "location c = ''Germany, Bavaria, Landkreis Dachau''"
    by (simp add: location_def)
next
  assume a: "session_get env u = Inr response"
    "BeautifulSoup env (JStr (response_text response)) = Inr soup"
    "find_first is_shop_list soup = Some shop_list"
    "get_vaccination_centers_for env u vt rn = Inr cs"
  define mk where "mk = (\<lambda>extra_data shop.
             (case getitem extra_data ''ajax_url'' of
                Inl e \<Rightarrow> Inl e
              | Inr au \<Rightarrow>
             (case getitem extra_data ''ajax_nonce'' of
                Inl e \<Rightarrow> Inl e
              | Inr an \<Rightarrow>
                  Inr \<lparr>vaccine_type = vt, round_num = rn, name = snd shop,
                       salon_id = fst shop, url = u, ajax_url = au,
                       ajax_none = an\<rparr>)))"
  from a obtain shops extra_data where
    s: "map_exn shop_of (find_all is_option shop_list) = Inr shops"
    and c: "map_exn (mk extra_data) shops = Inr cs"
    unfolding get_vaccination_centers_for_def mk_def
    by (auto split: sum.splits option.splits)
  have "map name cs = map snd shops"
  proof (rule map_exn_fields [OF c])
    fix shop :: "string \<times> string" and x
    assume "mk extra_data shop = Inr x"
    then show "name x = snd shop"
      by (auto simp: mk_def split: sum.splits)
  qed
  with shop_names [OF s]
  show "map name cs = map (\<lambda>opt. strip (get_text opt)) (find_all is_option shop_list)"
    by simp
next
  show "\<forall>x \<in> set cs. location x = ''Germany, Bavaria, Landkreis Dachau''"
    by (simp add: location_def)
qed

theorem location_constant_witness:
  "location sample_center = ''Germany, Bavaria, Landkreis Dachau''
   \<and> map name (centers_on JNJ_URL JohnsonAndJohnson None)
       = map (\<lambda>opt. strip (get_text opt)) (find_all is_option shops_div)
   \<and> map name (centers_on JNJ_URL JohnsonAndJohnson None)
       = [''Impfzentrum Dachau'', ''Impfzentrum Karlsfeld'']
   \<and> map location (centers_on JNJ_URL JohnsonAndJohnson None)
       = [''Germany, Bavaria, Landkreis Dachau'', ''Germany, Bavaria, Landkreis Dachau'']"
  using location_constant [of sample_center shops_env JNJ_URL "page_response shops_html"
      "page_soup [shops_div]" shops_div JohnsonAndJohnson None
      "centers_on JNJ_URL JohnsonAndJohnson None"]
    shops_env_parts(1) [of JNJ_URL] shops_env_parts(3) shops_soup_list
    shops_env_discovery [of JNJ_URL JohnsonAndJohnson None]
  by (simp add: centers_on_def)

section \<open>Properties of the settings loader\<close>

text \<open>
  C8.  Loading a settings file whose mapping has no \<open>token\<close> fails with \<open>ConfigError\<close>.
  Loading a file that sets \<open>token\<close> only gives the settings with that token and the
  defaults \<open>56970700\<close>, \<open>sqlite+pysqlite:///data/impfbot.db\<close>, \<open>1200\<close> and the log format
  of the source.  A file that sets all five fields gives exactly the converted values,
  whatever they are: no value is checked any further.
\<close>

theorem Config_load_token_and_defaults:
  "(open_file ld f1 = Inr txt1 \<longrightarrow> yaml_parse ld txt1 = Inr (JObj kvs1)
      \<longrightarrow> map_of kvs1 ''token'' = None
      \<longrightarrow> Config_load ld f1 = Inl (ConfigError ''token''))
   \<and> (open_file ld f2 = Inr txt2 \<longrightarrow> yaml_parse ld txt2 = Inr (JObj [(''token'', tv2)])
      \<longrightarrow> as_str ld tv2 = Inr tok2
      \<longrightarrow> Config_load ld f2 =
            Inr \<lparr>token = tok2, admin_chat_id = 56970700,
                 database_spec = ''sqlite+pysqlite:///data/impfbot.db'',
                 check_period = 1200,
                 log_format = ''[%(asctime)s - %(levelname)s - %(name)s]: %(message)s''\<rparr>)
   \<and> (open_file ld f3 = Inr txt3 \<longrightarrow> yaml_parse ld txt3 = Inr (JObj kvs3)
      \<longrightarrow> map_of kvs3 ''token'' = Some tv \<longrightarrow> as_str ld tv = Inr tok
      \<longrightarrow> map_of kvs3 ''admin_chat_id'' = Some av \<longrightarrow> as_int ld av = Inr a
      \<longrightarrow> map_of kvs3 ''database_spec'' = Some dv \<longrightarrow> as_str ld dv = Inr d
      \<longrightarrow> map_of kvs3 ''check_period'' = Some pv \<longrightarrow> as_int ld pv = Inr p
      \<longrightarrow> map_of kvs3 ''log_format'' = Some lv \<longrightarrow> as_str ld lv = Inr l
      \<longrightarrow> Config_load ld f3 =
            Inr \<lparr>token = tok, admin_chat_id = a, database_spec = d, check_period = p,
                 log_format = l\<rparr>)"
proof (intro conjI impI)
  assume "open_file ld f1 = Inr txt1" "yaml_parse ld txt1 = Inr (JObj kvs1)"
    "map_of kvs1 ''token'' = None"
  then show "Config_load ld f1 = Inl (ConfigError ''token'')"
    by (simp add: Config_load_def from_stream_def)
next
  assume "open_file ld f2 = Inr txt2" "yaml_parse ld txt2 = Inr (JObj [(''token'', tv2)])"
    "as_str ld tv2 = Inr tok2"
  then show "Config_load ld f2 =
            Inr \<lparr>token = tok2, admin_chat_id = 56970700,
                 database_spec = ''sqlite+pysqlite:///data/impfbot.db'',
                 check_period = 1200,
                 log_format = ''[%(asctime)s - %(levelname)s - %(name)s]: %(message)s''\<rparr>"
    by (simp add: Config_load_def from_stream_def optional_field_def Config_init_def)
next
  assume "open_file ld f3 = Inr txt3" "yaml_parse ld txt3 = Inr (JObj kvs3)"
    "map_of kvs3 ''token'' = Some tv" "as_str ld tv = Inr tok"
    "map_of kvs3 ''admin_chat_id'' = Some av" "as_int ld av = Inr a"
    "map_of kvs3 ''database_spec'' = Some dv" "as_str ld dv = Inr d"
    "map_of kvs3 ''check_period'' = Some pv" "as_int ld pv = Inr p"
    "map_of kvs3 ''log_format'' = Some lv" "as_str ld lv = Inr l"
  then show "Config_load ld f3 =
            Inr \<lparr>token = tok, admin_chat_id = a, database_spec = d, check_period = p,
                 log_format = l\<rparr>"
    by (simp add: Config_load_def from_stream_def optional_field_def Config_init_def)
qed

theorem Config_load_token_and_defaults_witness:
  "Config_load sample_loader ''no_token.yml'' = Inl (ConfigError ''token'')
   \<and> Config_load sample_loader ''token_only.yml'' =
       Inr \<lparr>token = ''000000:EXAMPLE-TOKEN'', admin_chat_id = 56970700,
            database_spec = ''sqlite+pysqlite:///data/impfbot.db'',
            check_period = 1200,
            log_format = ''[%(asctime)s - %(levelname)s - %(name)s]: %(message)s''\<rparr>
   \<and> Config_load sample_loader ''full.yml'' =
       Inr \<lparr>token = ''000000:EXAMPLE-TOKEN'', admin_chat_id = 0,
            database_spec = ''sqlite:///:memory:'', check_period = - 5,
            log_format = ''%(message)s''\<rparr>"
  using Config_load_token_and_defaults [of sample_loader
      "''no_token.yml''" "''check_period: 60''" "[(''check_period'', JInt 60)]"
      "''token_only.yml''" "''token: 000000:EXAMPLE-TOKEN''"
      "JStr ''000000:EXAMPLE-TOKEN''"
      "''000000:EXAMPLE-TOKEN''"
      "''full.yml''" "''full''"
      "[(''token'', JStr ''000000:EXAMPLE-TOKEN''),
        (''admin_chat_id'', JInt 0),
        (''database_spec'', JStr ''sqlite:///:memory:''),
        (''check_period'', JInt (- 5)),
        (''log_format'', JStr ''%(message)s'')]"
      "JStr ''000000:EXAMPLE-TOKEN''"
      "''000000:EXAMPLE-TOKEN''"
      "JInt 0" 0 "JStr ''sqlite:///:memory:''" "''sqlite:///:memory:''"
      "JInt (- 5)" "- 5" "JStr ''%(message)s''" "''%(message)s''"]
  by (simp add: sample_loader_def full_settings_def)

end
